theory Spec2Isabelle
  imports Main
begin

section \<open>The Display library (Display.h, Display.c)\<close>

text \<open>
  A shallow embedding of the default build of the library (neither \<^verbatim>\<open>MATLAB\<close> nor
  \<^verbatim>\<open>NOFPRINTF\<close> defined). The global variables of Display.c are the fields of one
  record; every function takes the record and returns it updated. A call that does not
  return to its caller is the left summand of the result: \<^verbatim>\<open>exit(1)\<close> with the globals as
  they are at that moment, a lock on the held mutex, or undefined behaviour of the C
  library.
\<close>

subsection \<open>Constants of Display.h\<close>

definition BUFFLEN :: nat where
  "BUFFLEN = 256"

text \<open>\<^verbatim>\<open>enum Verbosity { DISABLE, ENABLE }\<close>; the setters take an \<^verbatim>\<open>int\<close>.\<close>

definition DISABLE :: int where
  "DISABLE = 0"

definition ENABLE :: int where
  "ENABLE = 1"

text \<open>\<^verbatim>\<open>enum PrintType { STANDARD, WARNING, ERROR, CUSTOM }\<close>, passed as \<^verbatim>\<open>int type\<close>.\<close>

definition STANDARD :: int where
  "STANDARD = 0"

definition WARNING :: int where
  "WARNING = 1"

definition ERROR :: int where
  "ERROR = 2"

definition CUSTOM :: int where
  "CUSTOM = 3"

text \<open>The ANSI codes the macros of Display.h pass on; \<^verbatim>\<open>\x1b\<close> is the escape byte.\<close>

definition ESC :: char where
  "ESC = CHR 0x1B"

definition RED :: string where
  "RED = ESC # ''[31m''"

definition YELLOW :: string where
  "YELLOW = ESC # ''[33m''"

definition RESET :: string where
  "RESET = ESC # ''[0m''"

definition BOLD :: string where
  "BOLD = ESC # ''[1m''"

subsection \<open>C strings and the fragment of printf the library relies on\<close>

definition NUL :: char where
  "NUL = CHR 0x00"

text \<open>
  A \<^verbatim>\<open>char *\<close> that is read as a string denotes the bytes before the first NUL of the
  memory it points to.
\<close>

definition cstr :: "string \<Rightarrow> string" where
  "cstr buf = takeWhile (\<lambda>c. c \<noteq> NUL) buf"

text \<open>
  \<^verbatim>\<open>strncpy(dest, src, n)\<close>: the first \<open>n\<close> bytes of \<open>dest\<close> become the string \<open>src\<close>
  cut to \<open>n\<close> bytes and padded with NUL up to \<open>n\<close>; no NUL is written when \<open>src\<close> has
  \<open>n\<close> bytes or more. The bytes of \<open>dest\<close> from \<open>n\<close> on are kept.
\<close>

definition strncpy :: "string \<Rightarrow> string \<Rightarrow> nat \<Rightarrow> string" where
  "strncpy dest src n =
     take n (cstr src) @ replicate (n - length (cstr src)) NUL @ drop n dest"

text \<open>FILE pointers: the null pointer, the two standard streams, and files the caller opened.\<close>

datatype FILE_ptr = NULL | stdout | stderr | fopen nat

subsection \<open>The globals of Display.c\<close>

record state =
  consoleLock :: bool
  timestamp :: string
  isLocked :: int
  verbose :: int
  colorfulness :: int
  file' :: string
  autoNewline :: int
  showTrace :: int
  streams :: "FILE_ptr list"
  stdoutToFile :: int
  stderrToFile :: int
  written :: "(FILE_ptr \<times> string) list"

text \<open>
  \<open>consoleLock\<close> is true while the mutex is held; \<open>file'\<close> is the 32-byte array \<^verbatim>\<open>file\<close>, \<open>streams\<close>
  the array of three FILE pointers; \<open>written\<close> is not a variable of the program but its
  effect on the outside: the \<^verbatim>\<open>fprintf\<close> calls made so far, oldest first, each with the
  stream and the bytes written.
\<close>

datatype error = ProcessExit int state | Deadlock | Undefined

text \<open>The values the static initialisers give (before \<^verbatim>\<open>InitializeDisplay\<close>).\<close>

definition initial_state :: state where
  "initial_state =
     \<lparr> consoleLock = False, timestamp = [], isLocked = 0,
       verbose = ENABLE, colorfulness = ENABLE,
       file' = CHR ''?'' # replicate 31 NUL,
       autoNewline = ENABLE, showTrace = ENABLE,
       streams = [NULL, NULL, NULL],
       stdoutToFile = 0, stderrToFile = 0, written = [] \<rparr>"

text \<open>
  The arguments behind the \<^verbatim>\<open>...\<close> of a variadic call. The library and its demo use
  \<^verbatim>\<open>%s\<close>, \<^verbatim>\<open>%d\<close> and plain text; \<^verbatim>\<open>%%\<close> is the escaped percent sign.
\<close>

datatype arg = ArgStr string | ArgInt int

definition digit :: "nat \<Rightarrow> char" where
  "digit n = ''0123456789'' ! (n mod 10)"

fun dec_nat :: "nat \<Rightarrow> string" where
  "dec_nat n = (if n < 10 then [digit n] else dec_nat (n div 10) @ [digit n])"

declare dec_nat.simps [simp del]

definition dec_int :: "int \<Rightarrow> string" where
  "dec_int i = (if i < 0 then CHR ''-'' # dec_nat (nat (- i)) else dec_nat (nat i))"

text \<open>
  What the printf family renders for a format and its arguments, before any cut to a
  buffer. \<open>None\<close> is a call the C standard leaves undefined (a conversion with no
  argument or with one of the wrong type, a lone \<^verbatim>\<open>%\<close> at the end) or a conversion
  outside the fragment above. Arguments left over are ignored, as in C.
\<close>

fun printf :: "string \<Rightarrow> arg list \<Rightarrow> string option" where
  "printf [] args = Some []"
| "printf (c # fmt) args =
     (if c \<noteq> CHR ''%'' then map_option ((#) c) (printf fmt args)
      else case fmt of
        [] \<Rightarrow> None
      | d # rest \<Rightarrow>
          if d = CHR ''%'' then map_option ((#) CHR ''%'') (printf rest args)
          else if d = CHR ''s'' then
            (case args of
               ArgStr s # args' \<Rightarrow> map_option ((@) (cstr s)) (printf rest args')
             | _ \<Rightarrow> None)
          else if d = CHR ''d'' then
            (case args of
               ArgInt i # args' \<Rightarrow> map_option ((@) (dec_int i)) (printf rest args')
             | _ \<Rightarrow> None)
          else None)"

text \<open>
  \<^verbatim>\<open>vsnprintf(buf, n, format, args)\<close> with \<open>0 < n\<close>: the string left in \<open>buf\<close> is the
  rendering cut to \<open>n - 1\<close> bytes (the last byte is the terminator).
\<close>

definition vsnprintf :: "nat \<Rightarrow> string \<Rightarrow> arg list \<Rightarrow> string option" where
  "vsnprintf n format args = map_option (take (n - 1)) (printf (cstr format) args)"

text \<open>\<^verbatim>\<open>fprintf(stream, "%s", s)\<close>; writing through a null FILE pointer is undefined.\<close>

definition fprintf_s :: "state \<Rightarrow> FILE_ptr \<Rightarrow> string \<Rightarrow> error + state" where
  "fprintf_s st stream s =
     (if stream = NULL then Inl Undefined
      else Inr (st\<lparr>written := written st @ [(stream, s)]\<rparr>))"

text \<open>Sequencing: the rest of a function body runs only if the call before it returned.\<close>

definition and_then :: "error + 'a \<Rightarrow> ('a \<Rightarrow> error + 'b) \<Rightarrow> error + 'b" where
  "and_then m f = (case m of Inl e \<Rightarrow> Inl e | Inr x \<Rightarrow> f x)"

subsection \<open>dprint\<close>

definition dprint :: "state \<Rightarrow> FILE_ptr \<Rightarrow> string \<Rightarrow> arg list \<Rightarrow> error + state" where
  "dprint st stream format args =
     (case vsnprintf (BUFFLEN - 1) format args of
        None \<Rightarrow> Inl Undefined
      | Some messageBuffer \<Rightarrow> fprintf_s st stream messageBuffer)"

text \<open>\<^verbatim>\<open>dprint(stderr, msg); exit(1);\<close> as the setters do on an invalid argument.\<close>

definition die :: "state \<Rightarrow> string \<Rightarrow> error + 'a" where
  "die st msg = (case dprint st stderr msg [] of Inl e \<Rightarrow> Inl e | Inr st' \<Rightarrow> Inl (ProcessExit 1 st'))"

subsection \<open>The flags\<close>

definition GetVerbose :: "state \<Rightarrow> int" where
  "GetVerbose st = verbose st"

definition SetVerbose :: "state \<Rightarrow> int \<Rightarrow> error + int \<times> state" where
  "SetVerbose st v =
     (if v = DISABLE \<or> v = ENABLE then Inr (0, st\<lparr>verbose := v\<rparr>)
      else die st ''ERROR: Invalid verbosity value.\<newline>'')"

definition GetColorfulness :: "state \<Rightarrow> int" where
  "GetColorfulness st = colorfulness st"

definition SetColorfulness :: "state \<Rightarrow> int \<Rightarrow> error + int \<times> state" where
  "SetColorfulness st c =
     (if c = DISABLE \<or> c = ENABLE then Inr (0, st\<lparr>colorfulness := c\<rparr>)
      else die st ''ERROR: Invalid colorfulness value.\<newline>'')"

definition GetAutoNewline :: "state \<Rightarrow> int" where
  "GetAutoNewline st = autoNewline st"

definition SetAutoNewline :: "state \<Rightarrow> int \<Rightarrow> error + int \<times> state" where
  "SetAutoNewline st a =
     (if a = ENABLE \<or> a = DISABLE then Inr (0, st\<lparr>autoNewline := a\<rparr>)
      else die st ''ERROR: Invalid auto newline value.\<newline>'')"

definition GetShowTrace :: "state \<Rightarrow> int" where
  "GetShowTrace st = showTrace st"

definition SetShowTrace :: "state \<Rightarrow> int \<Rightarrow> error + int \<times> state" where
  "SetShowTrace st s =
     (if s = ENABLE \<or> s = DISABLE then Inr (0, st\<lparr>showTrace := s\<rparr>)
      else die st ''ERROR: Invalid show trace value.\<newline>'')"

subsection \<open>The file name shown in the trace\<close>

text \<open>\<^verbatim>\<open>GetFilename\<close> returns the array; its caller reads it as a string.\<close>

definition GetFilename :: "state \<Rightarrow> string" where
  "GetFilename st = file' st"

text \<open>The argument is \<open>None\<close> for the null pointer; \<^verbatim>\<open>sizeof(file)\<close> is 32.\<close>

definition SetFilename :: "state \<Rightarrow> string option \<Rightarrow> int \<times> state" where
  "SetFilename st newFilename =
     (case newFilename of
        Some src \<Rightarrow> (0, st\<lparr>file' := strncpy (file' st) src (32 - 1)\<rparr>)
      | None \<Rightarrow> (- 1, st))"

subsection \<open>The streams\<close>

definition SetStream :: "state \<Rightarrow> int \<Rightarrow> FILE_ptr \<Rightarrow> error + int \<times> state" where
  "SetStream st streamType newStream =
     (if streamType \<ge> STANDARD \<and> streamType \<le> ERROR
      then Inr (0, st\<lparr>streams := (streams st)[nat streamType := newStream]\<rparr>)
      else die st ''ERROR: Invalid stream type. See PrintType enum.'')"

definition GetStream :: "state \<Rightarrow> int \<Rightarrow> FILE_ptr" where
  "GetStream st streamType =
     (if streamType \<ge> STANDARD \<and> streamType \<le> ERROR
      then streams st ! nat streamType
      else NULL)"

subsection \<open>The print mutex\<close>

text \<open>
  One thread is modelled. Locking the mutex it already holds never returns;
  unlocking a mutex that is not held is undefined.
\<close>

definition pthread_mutex_lock :: "state \<Rightarrow> error + state" where
  "pthread_mutex_lock st =
     (if consoleLock st then Inl Deadlock else Inr (st\<lparr>consoleLock := True\<rparr>))"

definition pthread_mutex_unlock :: "state \<Rightarrow> error + state" where
  "pthread_mutex_unlock st =
     (if consoleLock st then Inr (st\<lparr>consoleLock := False\<rparr>) else Inl Undefined)"

definition DisplayLock :: "state \<Rightarrow> error + int \<times> state" where
  "DisplayLock st =
     and_then (if isLocked st = 0 then pthread_mutex_lock st else Inr st)
       (\<lambda>st. Inr (0, st\<lparr>isLocked := 1\<rparr>))"

definition DisplayUnlock :: "state \<Rightarrow> error + int \<times> state" where
  "DisplayUnlock st =
     and_then (if isLocked st \<noteq> 0 then pthread_mutex_unlock st else Inr st)
       (\<lambda>st. Inr (0, st\<lparr>isLocked := 0\<rparr>))"

subsection \<open>The print engine\<close>

text \<open>
  The fields of \<^verbatim>\<open>struct tm\<close> that \<^verbatim>\<open>strftime\<close> reads for \<^verbatim>\<open>"%T"\<close>, and the
  \<^verbatim>\<open>HH:MM:SS\<close> it renders. The clock is an input of the model.
\<close>

record tm =
  tm_hour :: nat
  tm_min :: nat
  tm_sec :: nat

definition two_digits :: "nat \<Rightarrow> string" where
  "two_digits n = [digit (n div 10), digit n]"

definition strftime_T :: "tm \<Rightarrow> string" where
  "strftime_T timeinfo =
     two_digits (tm_hour timeinfo) @ '':'' @ two_digits (tm_min timeinfo) @ '':'' @
     two_digits (tm_sec timeinfo)"

text \<open>
  The function \<^verbatim>\<open>__Display\<close>. \<open>timeinfo\<close> is what \<^verbatim>\<open>localtime\<close> returns during the
  call; \<open>args\<close> are the variadic arguments.
\<close>

definition Display_engine ::
  "state \<Rightarrow> tm \<Rightarrow> string \<Rightarrow> int \<Rightarrow> FILE_ptr \<Rightarrow> string \<Rightarrow> string \<Rightarrow> arg list \<Rightarrow> error + state" where
  "Display_engine st0 timeinfo function type fd color format args =
     and_then (if isLocked st0 = 0 then pthread_mutex_lock st0 else Inr st0) (\<lambda>st.
     let old_colorfulness = GetColorfulness st in
     and_then
       (if (stdoutToFile st \<noteq> 0 \<and> type = STANDARD) \<or>
           (stderrToFile st \<noteq> 0 \<and> (type = WARNING \<or> type = ERROR))
        then SetColorfulness st DISABLE else Inr (0, st)) (\<lambda>(_, st).
     let stream = (if type = CUSTOM then fd else GetStream st type);
         st = st\<lparr>timestamp := strftime_T timeinfo\<rparr> in
     and_then
       (if showTrace st \<noteq> 0 then
          if colorfulness st \<noteq> 0 then
            dprint st stream ''%s[%s][%s][%s]''
              [ArgStr color, ArgStr (timestamp st), ArgStr (file' st), ArgStr function]
          else
            dprint st stream ''[%s][%s][%s]''
              [ArgStr (timestamp st), ArgStr (file' st), ArgStr function]
        else Inr st) (\<lambda>st.
     and_then
       (if type = ERROR then dprint st stream ''[ERROR] '' []
        else if type = WARNING then dprint st stream ''[WARNING] '' []
        else if showTrace st \<noteq> 0 then dprint st stream '' '' []
        else Inr st) (\<lambda>st.
     case vsnprintf (BUFFLEN - 1) format args of
       None \<Rightarrow> Inl Undefined
     | Some tmpBuffer \<Rightarrow>
     and_then (dprint st stream tmpBuffer []) (\<lambda>st.
     and_then (if colorfulness st \<noteq> 0 then dprint st stream RESET [] else Inr st) (\<lambda>st.
     and_then (if autoNewline st \<noteq> 0 then dprint st stream ''\<newline>'' [] else Inr st) (\<lambda>st.
     and_then (SetColorfulness st old_colorfulness) (\<lambda>(_, st).
     if isLocked st = 0 then pthread_mutex_unlock st else Inr st))))))))"

subsection \<open>The macros of Display.h\<close>

text \<open>\<open>function\<close> is the \<^verbatim>\<open>__FUNCTION__\<close> of the call site.\<close>

definition Display ::
  "state \<Rightarrow> tm \<Rightarrow> string \<Rightarrow> string \<Rightarrow> arg list \<Rightarrow> error + state" where
  "Display st timeinfo function format args =
     (if verbose st \<noteq> 0
      then Display_engine st timeinfo function STANDARD NULL RESET format args
      else Inr st)"

definition DisplayWarning ::
  "state \<Rightarrow> tm \<Rightarrow> string \<Rightarrow> string \<Rightarrow> arg list \<Rightarrow> error + state" where
  "DisplayWarning st timeinfo function format args =
     Display_engine st timeinfo function WARNING NULL (BOLD @ YELLOW) format args"

definition DisplayError ::
  "state \<Rightarrow> tm \<Rightarrow> string \<Rightarrow> string \<Rightarrow> arg list \<Rightarrow> error + state" where
  "DisplayError st timeinfo function format args =
     Display_engine st timeinfo function ERROR NULL (BOLD @ RED) format args"

definition DisplayColor ::
  "state \<Rightarrow> tm \<Rightarrow> string \<Rightarrow> string \<Rightarrow> string \<Rightarrow> arg list \<Rightarrow> error + state" where
  "DisplayColor st timeinfo function color format args =
     (if verbose st \<noteq> 0
      then Display_engine st timeinfo function STANDARD NULL color format args
      else Inr st)"

definition DisplayFile ::
  "state \<Rightarrow> tm \<Rightarrow> string \<Rightarrow> FILE_ptr \<Rightarrow> string \<Rightarrow> arg list \<Rightarrow> error + state" where
  "DisplayFile st timeinfo function fd format args =
     Display_engine st timeinfo function CUSTOM fd RESET format args"

subsection \<open>Sample inputs\<close>

text \<open>
  The globals once \<^verbatim>\<open>InitializeDisplay\<close> has run on a terminal with no option given:
  the static initialisers and the three \<^verbatim>\<open>SetStream\<close> calls of the initialisation.
  \<open>noon\<close> is a reading of the clock.
\<close>

definition terminal_state :: state where
  "terminal_state = initial_state\<lparr>streams := [stdout, stderr, stderr]\<rparr>"

definition noon :: tm where
  "noon = \<lparr>tm_hour = 12, tm_min = 0, tm_sec = 0\<rparr>"

section \<open>Properties\<close>

subsection \<open>Formats without conversions\<close>

lemma cstr_no_NUL: "NUL \<notin> set s \<Longrightarrow> cstr s = s"
  by (auto simp: cstr_def)

lemma printf_plain: "CHR ''%'' \<notin> set fmt \<Longrightarrow> printf fmt args = Some fmt"
  by (induction fmt) auto

lemma dprint_plain:
  assumes "stream \<noteq> NULL" "NUL \<notin> set fmt" "CHR ''%'' \<notin> set fmt" "length fmt < BUFFLEN - 1"
  shows "dprint st stream fmt args = Inr (st\<lparr>written := written st @ [(stream, fmt)]\<rparr>)"
  using assms by (simp add: dprint_def vsnprintf_def cstr_no_NUL printf_plain fprintf_s_def)

lemma die_plain:
  assumes "NUL \<notin> set msg" "CHR ''%'' \<notin> set msg" "length msg < BUFFLEN - 1"
  shows "die st msg = Inl (ProcessExit 1 (st\<lparr>written := written st @ [(stderr, msg)]\<rparr>))"
  using assms by (simp add: die_def dprint_plain)

subsection \<open>The flags\<close>

text \<open>
  C5. For each of the four flags (verbose, colorfulness, showTrace, autoNewline) and each of
  the two values DISABLE and ENABLE, the setter called with that value returns 0 and the
  getter then returns exactly that value.
\<close>

theorem setter_getter_roundtrip:
  assumes "v = DISABLE \<or> v = ENABLE"
  shows "(\<exists>st'. SetVerbose st v = Inr (0, st') \<and> GetVerbose st' = v) \<and>
         (\<exists>st'. SetColorfulness st v = Inr (0, st') \<and> GetColorfulness st' = v) \<and>
         (\<exists>st'. SetShowTrace st v = Inr (0, st') \<and> GetShowTrace st' = v) \<and>
         (\<exists>st'. SetAutoNewline st v = Inr (0, st') \<and> GetAutoNewline st' = v)"
  using assms
  by (auto simp: SetVerbose_def GetVerbose_def SetColorfulness_def GetColorfulness_def
      SetShowTrace_def GetShowTrace_def SetAutoNewline_def GetAutoNewline_def)

text \<open>The round trip at DISABLE, from the values of the static initialisers.\<close>

theorem setter_getter_roundtrip_witness:
  "(\<exists>st'. SetVerbose initial_state DISABLE = Inr (0, st') \<and> GetVerbose st' = DISABLE) \<and>
   (\<exists>st'. SetColorfulness initial_state DISABLE = Inr (0, st') \<and> GetColorfulness st' = DISABLE) \<and>
   (\<exists>st'. SetShowTrace initial_state DISABLE = Inr (0, st') \<and> GetShowTrace st' = DISABLE) \<and>
   (\<exists>st'. SetAutoNewline initial_state DISABLE = Inr (0, st') \<and> GetAutoNewline st' = DISABLE)"
  using setter_getter_roundtrip [of DISABLE initial_state] by simp

text \<open>
  C6. For each of the four flag setters and every argument other than DISABLE and ENABLE,
  the call ends the process with exit status 1 after writing the setter's diagnostic to
  stderr, and the flag has its prior value when the process ends.
\<close>

theorem invalid_flag_exits:
  assumes "v \<noteq> DISABLE" and "v \<noteq> ENABLE"
  shows "(\<exists>st'. SetVerbose st v = Inl (ProcessExit 1 st') \<and> GetVerbose st' = GetVerbose st \<and>
            written st' = written st @ [(stderr, ''ERROR: Invalid verbosity value.\<newline>'')]) \<and>
         (\<exists>st'. SetColorfulness st v = Inl (ProcessExit 1 st') \<and>
            GetColorfulness st' = GetColorfulness st \<and>
            written st' = written st @ [(stderr, ''ERROR: Invalid colorfulness value.\<newline>'')]) \<and>
         (\<exists>st'. SetShowTrace st v = Inl (ProcessExit 1 st') \<and>
            GetShowTrace st' = GetShowTrace st \<and>
            written st' = written st @ [(stderr, ''ERROR: Invalid show trace value.\<newline>'')]) \<and>
         (\<exists>st'. SetAutoNewline st v = Inl (ProcessExit 1 st') \<and>
            GetAutoNewline st' = GetAutoNewline st \<and>
            written st' = written st @ [(stderr, ''ERROR: Invalid auto newline value.\<newline>'')])"
proof -
  have 1: "SetVerbose st v = die st ''ERROR: Invalid verbosity value.\<newline>''"
    using assms by (simp add: SetVerbose_def)
  have 2: "SetColorfulness st v = die st ''ERROR: Invalid colorfulness value.\<newline>''"
    using assms by (simp add: SetColorfulness_def)
  have 3: "SetShowTrace st v = die st ''ERROR: Invalid show trace value.\<newline>''"
    using assms by (simp add: SetShowTrace_def)
  have 4: "SetAutoNewline st v = die st ''ERROR: Invalid auto newline value.\<newline>''"
    using assms by (simp add: SetAutoNewline_def)
  show ?thesis
    unfolding 1 2 3 4
    by (simp add: die_plain NUL_def BUFFLEN_def GetVerbose_def GetColorfulness_def
        GetShowTrace_def GetAutoNewline_def)
qed

text \<open>The argument 2 is neither value; the verbosity setter exits and verbose is still ENABLE.\<close>

theorem invalid_flag_exits_witness:
  "(2::int) \<noteq> DISABLE \<and> 2 \<noteq> ENABLE \<and>
   (\<exists>st'. SetVerbose initial_state 2 = Inl (ProcessExit 1 st') \<and>
      GetVerbose st' = ENABLE \<and>
      written st' = [(stderr, ''ERROR: Invalid verbosity value.\<newline>'')])"
proof -
  have h: "(2::int) \<noteq> DISABLE" "(2::int) \<noteq> ENABLE"
    by (simp_all add: DISABLE_def ENABLE_def)
  from invalid_flag_exits [OF h, of initial_state] show ?thesis
    using h by (simp add: initial_state_def GetVerbose_def)
qed

subsection \<open>The streams and the mutex\<close>

text \<open>
  C10. For a stream type outside STANDARD..ERROR (CUSTOM is one), GetStream returns the
  null pointer to its caller, while SetStream with the same stream type ends the process
  with exit status 1 after a diagnostic on stderr, the array of streams unchanged.
\<close>

theorem GetStream_out_of_range:
  assumes "streamType < STANDARD \<or> streamType > ERROR"
  shows "GetStream st streamType = NULL \<and>
         (\<exists>st'. SetStream st streamType newStream = Inl (ProcessExit 1 st') \<and>
            streams st' = streams st \<and>
            written st' = written st @
              [(stderr, ''ERROR: Invalid stream type. See PrintType enum.'')])"
proof -
  have "SetStream st streamType newStream =
          die st ''ERROR: Invalid stream type. See PrintType enum.''"
    using assms by (auto simp: SetStream_def)
  then show ?thesis
    using assms by (auto simp: GetStream_def die_plain NUL_def BUFFLEN_def)
qed

text \<open>CUSTOM is out of range: GetStream gives NULL, SetStream exits.\<close>

theorem GetStream_out_of_range_witness:
  "(CUSTOM < STANDARD \<or> CUSTOM > ERROR) \<and> GetStream initial_state CUSTOM = NULL \<and>
   (\<exists>st'. SetStream initial_state CUSTOM stdout = Inl (ProcessExit 1 st'))"
proof -
  have h: "CUSTOM < STANDARD \<or> CUSTOM > ERROR"
    by (simp add: CUSTOM_def ERROR_def)
  from GetStream_out_of_range [OF h, of initial_state stdout] show ?thesis
    using h by blast
qed

text \<open>
  C7. While the lock is manually held (\<open>isLocked\<close> is nonzero), DisplayLock returns without
  touching the mutex and leaves \<open>isLocked\<close> at 1, so a second DisplayLock right after a
  first one returns and changes nothing; a first DisplayLock on the free mutex acquires
  it. DisplayUnlock while the lock is not manually held changes nothing.
\<close>

theorem manual_lock_idempotent:
  "(isLocked st \<noteq> 0 \<longrightarrow> DisplayLock st = Inr (0, st\<lparr>isLocked := 1\<rparr>)) \<and>
   (isLocked st = 0 \<and> \<not> consoleLock st \<longrightarrow>
      DisplayLock st = Inr (0, st\<lparr>consoleLock := True, isLocked := 1\<rparr>)) \<and>
   (\<forall>st1. DisplayLock st = Inr (0, st1) \<longrightarrow> DisplayLock st1 = Inr (0, st1)) \<and>
   (isLocked st = 0 \<longrightarrow> DisplayUnlock st = Inr (0, st))"
  by (auto simp: DisplayLock_def DisplayUnlock_def and_then_def pthread_mutex_lock_def
      split: if_splits)

text \<open>DisplayLock twice from the initial globals, and DisplayUnlock on the initial globals.\<close>

theorem manual_lock_idempotent_witness:
  "DisplayLock initial_state = Inr (0, initial_state\<lparr>consoleLock := True, isLocked := 1\<rparr>) \<and>
   DisplayLock (initial_state\<lparr>consoleLock := True, isLocked := 1\<rparr>) =
     Inr (0, initial_state\<lparr>consoleLock := True, isLocked := 1\<rparr>) \<and>
   DisplayUnlock initial_state = Inr (0, initial_state)"
  using manual_lock_idempotent [of initial_state]
    manual_lock_idempotent [of "initial_state\<lparr>consoleLock := True, isLocked := 1\<rparr>"]
  by (simp add: initial_state_def)

subsection \<open>The file name\<close>

lemma cstr_takes_prefix:
  assumes "NUL \<notin> set pre"
  shows "cstr (pre @ NUL # rest) = pre"
  using assms by (induction pre) (auto simp: cstr_def)

lemma NUL_notin_cstr: "NUL \<notin> set (cstr s)"
  by (auto simp: cstr_def dest: set_takeWhileD)

lemma cstr_strncpy:
  assumes "length dest = Suc n" and "dest ! n = NUL"
  shows "cstr (strncpy dest src n) = take n (cstr src)"
    and "length (strncpy dest src n) = Suc n"
    and "strncpy dest src n ! n = NUL"
proof -
  have d: "drop n dest = [NUL]"
    using assms by (metis Cons_nth_drop_Suc drop_all lessI order_refl)
  have "replicate (n - length (cstr src)) NUL @ [NUL] = NUL # replicate (n - length (cstr src)) NUL"
    by (simp add: replicate_append_same)
  then have e: "strncpy dest src n = take n (cstr src) @ NUL # replicate (n - length (cstr src)) NUL"
    by (simp add: strncpy_def d)
  have "NUL \<notin> set (take n (cstr src))"
    using NUL_notin_cstr by (meson in_set_takeD)
  then show "cstr (strncpy dest src n) = take n (cstr src)"
    unfolding e by (rule cstr_takes_prefix)
  show l: "length (strncpy dest src n) = Suc n"
    by (simp add: strncpy_def d)
  have "length (take n (cstr src) @ replicate (n - length (cstr src)) NUL) = n"
    by simp
  then show "strncpy dest src n ! n = NUL"
    unfolding strncpy_def d by (metis append_assoc nth_append_length)
qed

text \<open>
  The empty string is not rejected: from the initial globals, whose file name is \<open>?\<close>,
  SetFilename with the empty string returns 0 and the stored name becomes empty.
\<close>

theorem SetFilename_empty_counterexample:
  "fst (SetFilename initial_state (Some [])) = 0 \<and>
   cstr (GetFilename initial_state) = ''?'' \<and>
   cstr (GetFilename (snd (SetFilename initial_state (Some [])))) = []"
  by (simp add: SetFilename_def GetFilename_def initial_state_def strncpy_def cstr_def NUL_def)

text \<open>
  C9, as the code has it. On the 32-byte array whose last byte is NUL (no function writes
  that byte): SetFilename with the null pointer returns -1 and changes nothing; with any
  string, the empty one included, it returns 0 and the stored name is the string cut to
  its first 31 bytes, the array still ending in NUL.
\<close>

theorem SetFilename_copies_or_rejects:
  assumes "length (file' st) = 32" and "file' st ! 31 = NUL"
  shows "SetFilename st None = (- 1, st) \<and>
         (\<exists>st'. SetFilename st (Some src) = (0, st') \<and>
            cstr (GetFilename st') = take 31 (cstr src) \<and>
            length (file' st') = 32 \<and> file' st' ! 31 = NUL)"
  using cstr_strncpy [of "file' st" 31 src] assms
  by (simp add: SetFilename_def GetFilename_def)

text \<open>The null pointer, a string of 36 bytes and the empty string on the initial globals.\<close>

theorem SetFilename_copies_or_rejects_witness:
  "SetFilename initial_state None = (- 1, initial_state) \<and>
   (\<exists>st'. SetFilename initial_state (Some ''0123456789abcdefghijklmnopqrstuvwxyz'') = (0, st') \<and>
      cstr (GetFilename st') = ''0123456789abcdefghijklmnopqrstu'') \<and>
   (\<exists>st'. SetFilename initial_state (Some []) = (0, st') \<and> cstr (GetFilename st') = [])"
proof -
  have h: "length (file' initial_state) = 32" "file' initial_state ! 31 = NUL"
    by (simp_all add: initial_state_def)
  have c: "cstr ''0123456789abcdefghijklmnopqrstuvwxyz'' = ''0123456789abcdefghijklmnopqrstuvwxyz''"
       "cstr [] = []"
    by (simp_all add: cstr_def NUL_def)
  from SetFilename_copies_or_rejects [OF h, of "''0123456789abcdefghijklmnopqrstuvwxyz''"]
    SetFilename_copies_or_rejects [OF h, of "[]"]
  show ?thesis by (auto simp: c)
qed

subsection \<open>What one call of the print engine writes\<close>

lemma vsnprintf_header_color:
  "vsnprintf n ''%s[%s][%s][%s]'' [ArgStr a, ArgStr b, ArgStr c, ArgStr d] =
     Some (take (n - 1) (cstr a @ ''['' @ cstr b @ '']['' @ cstr c @ '']['' @ cstr d @ '']''))"
  by (simp add: vsnprintf_def cstr_def NUL_def)

lemma vsnprintf_header_plain:
  "vsnprintf n ''[%s][%s][%s]'' [ArgStr b, ArgStr c, ArgStr d] =
     Some (take (n - 1) (''['' @ cstr b @ '']['' @ cstr c @ '']['' @ cstr d @ '']''))"
  by (simp add: vsnprintf_def cstr_def NUL_def)

lemma dprint_rendered:
  assumes "stream \<noteq> NULL" and "vsnprintf (BUFFLEN - 1) format args = Some b"
  shows "dprint st stream format args = Inr (st\<lparr>written := written st @ [(stream, b)]\<rparr>)"
  using assms by (simp add: dprint_def fprintf_s_def)

lemma and_then_Inr: "and_then (Inr x) f = f x"
  by (simp add: and_then_def)

lemma vsnprintf_literals:
  "vsnprintf (BUFFLEN - 1) ''[ERROR] '' [] = Some ''[ERROR] ''"
  "vsnprintf (BUFFLEN - 1) ''[WARNING] '' [] = Some ''[WARNING] ''"
  "vsnprintf (BUFFLEN - 1) '' '' [] = Some '' ''"
  "vsnprintf (BUFFLEN - 1) ''\<newline>'' [] = Some ''\<newline>''"
  "vsnprintf (BUFFLEN - 1) RESET [] = Some RESET"
  by (simp_all add: vsnprintf_def cstr_def NUL_def BUFFLEN_def RESET_def ESC_def)

lemma Display_engine_returns:
  assumes lock: "isLocked st \<noteq> 0 \<or> \<not> consoleLock st"
    and col: "colorfulness st = DISABLE \<or> colorfulness st = ENABLE"
    and stream: "stream = (if type = CUSTOM then fd else GetStream st type)" "stream \<noteq> NULL"
    and body: "vsnprintf (BUFFLEN - 1) format args = Some tmpBuffer"
      "vsnprintf (BUFFLEN - 1) tmpBuffer [] = Some body"
    and c: "c = (if (stdoutToFile st \<noteq> 0 \<and> type = STANDARD) \<or>
                   (stderrToFile st \<noteq> 0 \<and> (type = WARNING \<or> type = ERROR))
                then DISABLE else colorfulness st)"
  shows "Display_engine st timeinfo function type fd color format args =
     Inr (st\<lparr>timestamp := strftime_T timeinfo,
             written := written st @ map (Pair stream)
               ((if showTrace st \<noteq> 0
                 then [take (BUFFLEN - 2)
                         ((if c \<noteq> 0 then cstr color else []) @ ''['' @
                          cstr (strftime_T timeinfo) @ '']['' @ cstr (file' st) @ '']['' @
                          cstr function @ '']'')]
                 else []) @
                (if type = ERROR then [''[ERROR] '']
                 else if type = WARNING then [''[WARNING] '']
                 else if showTrace st \<noteq> 0 then ['' ''] else []) @
                [body] @
                (if c \<noteq> 0 then [RESET] else []) @
                (if autoNewline st \<noteq> 0 then [''\<newline>''] else []))\<rparr>)"
proof -
  define L where "L = (isLocked st = 0 \<or> consoleLock st)"
  define hc where "hc = take (BUFFLEN - 1 - 1)
      (cstr color @ ''['' @ cstr (strftime_T timeinfo) @ '']['' @ cstr (file' st) @ '']['' @
       cstr function @ '']'')"
  define hp where "hp = take (BUFFLEN - 1 - 1)
      (''['' @ cstr (strftime_T timeinfo) @ '']['' @ cstr (file' st) @ '']['' @
       cstr function @ '']'')"
  define hdr where "hdr = (if showTrace st \<noteq> 0 then [if c \<noteq> 0 then hc else hp] else [])"
  have vc: "vsnprintf (BUFFLEN - 1) ''%s[%s][%s][%s]''
      [ArgStr color, ArgStr (strftime_T timeinfo), ArgStr (file' st), ArgStr function] = Some hc"
    unfolding hc_def by (rule vsnprintf_header_color)
  have vp: "vsnprintf (BUFFLEN - 1) ''[%s][%s][%s]''
      [ArgStr (strftime_T timeinfo), ArgStr (file' st), ArgStr function] = Some hp"
    unfolding hp_def by (rule vsnprintf_header_plain)
  have hdr_eq: "hdr = (if showTrace st \<noteq> 0
                 then [take (BUFFLEN - 2)
                         ((if c \<noteq> 0 then cstr color else []) @ ''['' @
                          cstr (strftime_T timeinfo) @ '']['' @ cstr (file' st) @ '']['' @
                          cstr function @ '']'')]
                 else [])"
    by (simp add: hdr_def hc_def hp_def BUFFLEN_def)
  define tag where "tag = (if type = ERROR then [''[ERROR] '']
                 else if type = WARNING then [''[WARNING] '']
                 else if showTrace st \<noteq> 0 then ['' ''] else [])"
  define rst where "rst = (if c \<noteq> 0 then [RESET] else [])"
  define nl where "nl = (if autoNewline st \<noteq> 0 then [''\<newline>''] else [])"
  define st1 where "st1 = st\<lparr>consoleLock := L\<rparr>"
  define st2 where "st2 = st\<lparr>consoleLock := L, colorfulness := c\<rparr>"
  define w where "w k = st\<lparr>consoleLock := L, colorfulness := c,
      timestamp := strftime_T timeinfo, written := written st @ map (Pair stream) k\<rparr>" for k
  have s1: "(if isLocked st = 0 then pthread_mutex_lock st else Inr st) = Inr st1"
    using lock by (auto simp: st1_def L_def pthread_mutex_lock_def)
  have s2: "(if (stdoutToFile st1 \<noteq> 0 \<and> type = STANDARD) \<or>
           (stderrToFile st1 \<noteq> 0 \<and> (type = WARNING \<or> type = ERROR))
        then SetColorfulness st1 DISABLE else Inr (0, st1)) = Inr (0, st2)"
    by (auto simp: st1_def st2_def c SetColorfulness_def)
  have str: "(if type = CUSTOM then fd else GetStream st2 type) = stream"
    by (simp add: stream(1) st2_def GetStream_def)
  have s3: "st2\<lparr>timestamp := strftime_T timeinfo\<rparr> = w []"
    by (simp add: st2_def w_def)
  have dp: "dprint (w k) stream fmt a = Inr (w (k @ [b]))"
    if "vsnprintf (BUFFLEN - 1) fmt a = Some b" for k fmt a b
    using that stream(2) by (simp add: dprint_rendered w_def)
  have s4: "(if showTrace (w []) \<noteq> 0 then
          if colorfulness (w []) \<noteq> 0 then
            dprint (w []) stream ''%s[%s][%s][%s]''
              [ArgStr color, ArgStr (timestamp (w [])), ArgStr (file' (w [])), ArgStr function]
          else
            dprint (w []) stream ''[%s][%s][%s]''
              [ArgStr (timestamp (w [])), ArgStr (file' (w [])), ArgStr function]
        else Inr (w [])) = Inr (w hdr)"
  proof -
    have f: "showTrace (w []) = showTrace st" "colorfulness (w []) = c"
      "timestamp (w []) = strftime_T timeinfo" "file' (w []) = file' st"
      by (simp_all add: w_def)
    show ?thesis
      unfolding f
      by (simp add: dp [OF vc] dp [OF vp] hdr_def)
  qed
  have s5: "(if type = ERROR then dprint (w hdr) stream ''[ERROR] '' []
        else if type = WARNING then dprint (w hdr) stream ''[WARNING] '' []
        else if showTrace (w hdr) \<noteq> 0 then dprint (w hdr) stream '' '' []
        else Inr (w hdr)) = Inr (w (hdr @ tag))"
  proof -
    have f: "showTrace (w hdr) = showTrace st"
      by (simp add: w_def)
    show ?thesis
      unfolding f by (simp add: dp [OF vsnprintf_literals(1)] dp [OF vsnprintf_literals(2)]
          dp [OF vsnprintf_literals(3)] tag_def)
  qed
  have s6: "dprint (w (hdr @ tag)) stream tmpBuffer [] = Inr (w ((hdr @ tag) @ [body]))"
    by (rule dp [OF body(2)])
  have s7: "(if colorfulness (w ((hdr @ tag) @ [body])) \<noteq> 0
        then dprint (w ((hdr @ tag) @ [body])) stream RESET []
        else Inr (w ((hdr @ tag) @ [body]))) = Inr (w (((hdr @ tag) @ [body]) @ rst))"
  proof -
    have f: "colorfulness (w ((hdr @ tag) @ [body])) = c"
      by (simp add: w_def)
    show ?thesis
      unfolding f by (simp add: dp [OF vsnprintf_literals(5)] rst_def)
  qed
  define k where "k = ((hdr @ tag) @ [body]) @ rst"
  have s8: "(if autoNewline (w k) \<noteq> 0 then dprint (w k) stream ''\<newline>'' [] else Inr (w k)) =
      Inr (w (k @ nl))"
  proof -
    have f: "autoNewline (w k) = autoNewline st"
      by (simp add: w_def)
    show ?thesis
      unfolding f by (simp add: dp [OF vsnprintf_literals(4)] nl_def)
  qed
  define st9 where "st9 = (w (k @ nl))\<lparr>colorfulness := colorfulness st\<rparr>"
  have s9: "SetColorfulness (w (k @ nl)) (GetColorfulness st1) = Inr (0, st9)"
    using col by (auto simp: SetColorfulness_def GetColorfulness_def st1_def st9_def)
  have s10: "(if isLocked st9 = 0 then pthread_mutex_unlock st9 else Inr st9) =
      Inr (st\<lparr>timestamp := strftime_T timeinfo,
             written := written st @ map (Pair stream) (k @ nl)\<rparr>)"
    using lock by (auto simp: st9_def w_def L_def pthread_mutex_unlock_def)
  have "Display_engine st timeinfo function type fd color format args =
      Inr (st\<lparr>timestamp := strftime_T timeinfo,
             written := written st @ map (Pair stream) (k @ nl)\<rparr>)"
    unfolding Display_engine_def s1 and_then_Inr Let_def prod.case s2 str s3 s4 s5 body(1)
      option.case s6 s7 k_def [symmetric] s8 s9 s10 ..
  then show ?thesis
    unfolding k_def hdr_eq tag_def rst_def nl_def by (simp split del: if_split)
qed

subsection \<open>Colorfulness across a call\<close>

lemma and_thenE:
  assumes "and_then m f = Inr y"
  obtains x where "m = Inr x" and "f x = Inr y"
  using assms by (cases m) (simp_all add: and_then_def)

lemma die_never_returns: "die st msg \<noteq> Inr x"
  by (simp add: die_def split: sum.splits)

lemma SetColorfulness_returned:
  assumes "SetColorfulness s v = Inr (a, s')"
  shows "colorfulness s' = v"
  using assms by (auto simp: SetColorfulness_def die_never_returns split: if_splits)

lemma lock_keeps_colorfulness:
  assumes "(if isLocked s = 0 then pthread_mutex_lock s else Inr s) = Inr s'"
  shows "colorfulness s' = colorfulness s"
  using assms by (auto simp: pthread_mutex_lock_def split: if_splits)

lemma unlock_keeps_colorfulness:
  assumes "(if isLocked s = 0 then pthread_mutex_unlock s else Inr s) = Inr s'"
  shows "colorfulness s' = colorfulness s"
  using assms by (auto simp: pthread_mutex_unlock_def split: if_splits)

lemma Display_engine_restores:
  assumes "Display_engine st timeinfo function type fd color format args = Inr st'"
  shows "colorfulness st' = colorfulness st"
proof -
  from assms obtain st1 a st8 st9 where
    l: "(if isLocked st = 0 then pthread_mutex_lock st else Inr st) = Inr st1"
    and s: "SetColorfulness st8 (GetColorfulness st1) = Inr (a, st9)"
    and u: "(if isLocked st9 = 0 then pthread_mutex_unlock st9 else Inr st9) = Inr st'"
    unfolding Display_engine_def Let_def
    by (elim and_thenE) (auto elim!: and_thenE split: option.splits prod.splits)
  have "colorfulness st' = colorfulness st9"
    using u by (rule unlock_keeps_colorfulness)
  also have "\<dots> = GetColorfulness st1"
    using s by (rule SetColorfulness_returned)
  also have "\<dots> = colorfulness st"
    unfolding GetColorfulness_def using l by (rule lock_keeps_colorfulness)
  finally show ?thesis .
qed


subsection \<open>The claims about the print engine\<close>

lemma strftime_noon: "strftime_T noon = ''12:00:00''"
  by (simp add: strftime_T_def noon_def two_digits_def digit_def)

lemmas sample_simps =
  terminal_state_def initial_state_def GetStream_def strftime_noon
  STANDARD_def WARNING_def ERROR_def CUSTOM_def DISABLE_def ENABLE_def

text \<open>
  C4. Whatever the category, the redirect flags and the other arguments, a call of the
  print engine that returns leaves colorfulness at the value it had before the call. The
  call does return when the mutex is free or manually held, colorfulness holds DISABLE or
  ENABLE, the stream of the call is not null and the format and the rendered body are
  in the defined fragment of printf.
\<close>

theorem colorfulness_restored:
  "(\<forall>st'. Display_engine st timeinfo function type fd color format args = Inr st' \<longrightarrow>
      GetColorfulness st' = GetColorfulness st) \<and>
   ((isLocked st \<noteq> 0 \<or> \<not> consoleLock st) \<and>
    (colorfulness st = DISABLE \<or> colorfulness st = ENABLE) \<and>
    (if type = CUSTOM then fd else GetStream st type) \<noteq> NULL \<and>
    vsnprintf (BUFFLEN - 1) format args = Some tmpBuffer \<and>
    vsnprintf (BUFFLEN - 1) tmpBuffer [] = Some body \<longrightarrow>
    (\<exists>st'. Display_engine st timeinfo function type fd color format args = Inr st'))"
proof (intro conjI allI impI)
  fix st'
  assume "Display_engine st timeinfo function type fd color format args = Inr st'"
  then show "GetColorfulness st' = GetColorfulness st"
    unfolding GetColorfulness_def by (rule Display_engine_restores)
next
  assume "(isLocked st \<noteq> 0 \<or> \<not> consoleLock st) \<and>
    (colorfulness st = DISABLE \<or> colorfulness st = ENABLE) \<and>
    (if type = CUSTOM then fd else GetStream st type) \<noteq> NULL \<and>
    vsnprintf (BUFFLEN - 1) format args = Some tmpBuffer \<and>
    vsnprintf (BUFFLEN - 1) tmpBuffer [] = Some body"
  then show "\<exists>st'. Display_engine st timeinfo function type fd color format args = Inr st'"
    using Display_engine_returns [OF _ _ refl _ _ _ refl] by blast
qed

text \<open>An error message while stderr is redirected: colorfulness is ENABLE before and after.\<close>

lemma vsnprintf_disk:
  "vsnprintf (BUFFLEN - 1) ''disk %s'' [ArgStr ''full''] = Some ''disk full''"
  "vsnprintf (BUFFLEN - 1) ''disk full'' [] = Some ''disk full''"
  by (simp_all add: vsnprintf_def cstr_def NUL_def BUFFLEN_def)

theorem colorfulness_restored_witness:
  "\<exists>st'. Display_engine (terminal_state\<lparr>stderrToFile := 1\<rparr>) noon ''main'' ERROR NULL
       (BOLD @ RED) ''disk %s'' [ArgStr ''full''] = Inr st' \<and>
     GetColorfulness st' = ENABLE"
proof -
  have h: "(isLocked (terminal_state\<lparr>stderrToFile := 1\<rparr>) \<noteq> 0 \<or>
       \<not> consoleLock (terminal_state\<lparr>stderrToFile := 1\<rparr>)) \<and>
    (colorfulness (terminal_state\<lparr>stderrToFile := 1\<rparr>) = DISABLE \<or>
     colorfulness (terminal_state\<lparr>stderrToFile := 1\<rparr>) = ENABLE) \<and>
    (if ERROR = CUSTOM then NULL else GetStream (terminal_state\<lparr>stderrToFile := 1\<rparr>) ERROR) \<noteq> NULL \<and>
    vsnprintf (BUFFLEN - 1) ''disk %s'' [ArgStr ''full''] = Some ''disk full'' \<and>
    vsnprintf (BUFFLEN - 1) ''disk full'' [] = Some ''disk full''"
    using vsnprintf_disk by (simp add: sample_simps)
  have g: "GetColorfulness (terminal_state\<lparr>stderrToFile := 1\<rparr>) = ENABLE"
    by (simp add: GetColorfulness_def sample_simps)
  from colorfulness_restored [of "terminal_state\<lparr>stderrToFile := 1\<rparr>" noon "''main''" ERROR
      NULL "BOLD @ RED" "''disk %s''" "[ArgStr ''full'']" "''disk full''" "''disk full''"] h
  show ?thesis
    unfolding g by blast
qed

text \<open>
  A rendered body without a percent sign is rendered to itself when dprint takes it as
  a format, so such a body is written as it is.
\<close>

lemma digit_not_NUL: "digit n \<noteq> NUL"
proof -
  have "n mod 10 < length ''0123456789''"
    by simp
  then have "digit n \<in> set ''0123456789''"
    unfolding digit_def by (rule nth_mem)
  then show ?thesis
    by (auto simp: NUL_def)
qed

lemma dec_nat_no_NUL: "NUL \<notin> set (dec_nat n)"
  by (induction n rule: dec_nat.induct)
    (subst dec_nat.simps, simp add: digit_not_NUL digit_not_NUL [symmetric])

lemma dec_int_no_NUL: "NUL \<notin> set (dec_int i)"
proof -
  have "NUL \<noteq> CHR ''-''"
    by (simp add: NUL_def)
  then show ?thesis
    by (simp add: dec_int_def dec_nat_no_NUL)
qed

lemma printf_no_NUL:
  assumes "printf fmt args = Some r" and "NUL \<notin> set fmt"
  shows "NUL \<notin> set r"
  using assms
proof (induction fmt args arbitrary: r rule: printf.induct)
  case (1 args)
  then show ?case by simp
next
  case (2 c fmt args)
  show ?case
  proof (cases "c = CHR ''%''")
    case False
    with "2.prems" obtain r' where "printf fmt args = Some r'" and "r = c # r'"
      by auto
    with "2.IH"(1) [OF False] "2.prems"(2) show ?thesis
      by auto
  next
    case True
    with "2.prems"(1) obtain d rest where f: "fmt = d # rest"
      by (cases fmt) auto
    from "2.prems"(2) f have n: "NUL \<notin> set rest"
      by simp
    consider "d = CHR ''%''" | "d \<noteq> CHR ''%''" "d = CHR ''s''"
      | "d \<noteq> CHR ''%''" "d \<noteq> CHR ''s''" "d = CHR ''d''"
      | "d \<noteq> CHR ''%''" "d \<noteq> CHR ''s''" "d \<noteq> CHR ''d''"
      by blast
    then show ?thesis
    proof cases
      case 1
      with "2.prems"(1) True f obtain r' where "printf rest args = Some r'" and "r = CHR ''%'' # r'"
        by auto
      with "2.IH"(2) [OF _ f 1] True n "2.prems"(2) show ?thesis
        by auto
    next
      case 2
      with "2.prems"(1) True f obtain s args' r' where a: "args = ArgStr s # args'"
        and "printf rest args' = Some r'" and "r = cstr s @ r'"
        by (auto split: list.splits arg.splits)
      with "2.IH"(3) [OF _ f 2 a refl] True n show ?thesis
        by (auto simp: NUL_notin_cstr)
    next
      case 3
      with "2.prems"(1) True f obtain i args' r' where a: "args = ArgInt i # args'"
        and "printf rest args' = Some r'" and "r = dec_int i @ r'"
        by (auto split: list.splits arg.splits)
      with "2.IH"(4) [OF _ f 3 a refl] True n show ?thesis
        by (auto simp: dec_int_no_NUL)
    next
      case 4
      with "2.prems"(1) True f show ?thesis
        by simp
    qed
  qed
qed

lemma plain_body_rendered_again:
  assumes "vsnprintf (BUFFLEN - 1) format args = Some tmpBuffer"
    and "CHR ''%'' \<notin> set tmpBuffer"
  shows "vsnprintf (BUFFLEN - 1) tmpBuffer [] = Some tmpBuffer"
proof -
  from assms(1) obtain r where r: "printf (cstr format) args = Some r"
    and t: "tmpBuffer = take (BUFFLEN - 1 - 1) r"
    by (auto simp: vsnprintf_def)
  have "NUL \<notin> set r"
    using r NUL_notin_cstr by (rule printf_no_NUL)
  then have "NUL \<notin> set tmpBuffer"
    unfolding t by (meson in_set_takeD)
  then show ?thesis
    using assms(2) by (simp add: vsnprintf_def cstr_no_NUL printf_plain t)
qed

text \<open>
  C1 says that the bytes written for the body are the rendered body, also when the
  rendered body contains a percent sign. The code does otherwise: the body rendered for
  \<^verbatim>\<open>Display("%s", "a%%b")\<close> is \<^verbatim>\<open>a%%b\<close>, but the engine passes the rendered body to
  dprint as a format, which renders it a second time, and the bytes written are
  \<^verbatim>\<open>a%b\<close>. The call is made with the trace and colorfulness disabled, on a terminal.
\<close>

theorem body_with_percent_is_reformatted:
  "vsnprintf (BUFFLEN - 1) ''%s'' [ArgStr ''a%%b''] = Some ''a%%b'' \<and>
   Display (terminal_state\<lparr>showTrace := DISABLE, colorfulness := DISABLE\<rparr>) noon ''main''
       ''%s'' [ArgStr ''a%%b''] =
     Inr (terminal_state\<lparr>showTrace := DISABLE, colorfulness := DISABLE,
            timestamp := ''12:00:00'',
            written := [(stdout, ''a%b''), (stdout, ''\<newline>'')]\<rparr>)"
proof -
  have v: "vsnprintf (BUFFLEN - 1) ''%s'' [ArgStr ''a%%b''] = Some ''a%%b''"
    "vsnprintf (BUFFLEN - 1) ''a%%b'' [] = Some ''a%b''"
    by (simp_all add: vsnprintf_def cstr_def NUL_def BUFFLEN_def)
  show ?thesis
    using v(1) Display_engine_returns [OF _ _ refl _ v refl,
        of "terminal_state\<lparr>showTrace := DISABLE, colorfulness := DISABLE\<rparr>" STANDARD NULL
           noon "''main''" RESET]
    by (simp add: Display_def sample_simps)
qed

text \<open>
  With the trace disabled and colorfulness enabled, on a terminal, \<^verbatim>\<open>Display("hi")\<close>
  writes the body, then the reset sequence, then the newline.
\<close>

theorem reset_without_trace_counterexample:
  "Display (terminal_state\<lparr>showTrace := DISABLE\<rparr>) noon ''main'' ''hi'' [] =
     Inr (terminal_state\<lparr>showTrace := DISABLE, timestamp := ''12:00:00'',
            written := [(stdout, ''hi''), (stdout, CHR 0x1B # ''[0m''), (stdout, ''\<newline>'')]\<rparr>)"
proof -
  have v: "vsnprintf (BUFFLEN - 1) ''hi'' [] = Some ''hi''"
    by (simp add: vsnprintf_def cstr_def NUL_def BUFFLEN_def)
  show ?thesis
    using Display_engine_returns [OF _ _ refl _ v v refl,
        of "terminal_state\<lparr>showTrace := DISABLE\<rparr>" STANDARD NULL noon "''main''" RESET]
    by (simp add: Display_def sample_simps RESET_def ESC_def)
qed

text \<open>
  C2, as the code has it. With the trace disabled a call that returns writes, to the
  stream of the call and in this order: the tag of a warning or an error, the body, the
  reset sequence if colorfulness (forced to DISABLE for a redirected category) is
  nonzero, and the newline if autoNewline is nonzero. Neither a header nor the color
  argument is written.
\<close>

theorem no_header_without_trace:
  assumes "showTrace st = DISABLE"
    and "isLocked st \<noteq> 0 \<or> \<not> consoleLock st"
    and "colorfulness st = DISABLE \<or> colorfulness st = ENABLE"
    and "(if type = CUSTOM then fd else GetStream st type) \<noteq> NULL"
    and "vsnprintf (BUFFLEN - 1) format args = Some tmpBuffer"
    and "vsnprintf (BUFFLEN - 1) tmpBuffer [] = Some body"
  shows "Display_engine st timeinfo function type fd color format args =
     Inr (st\<lparr>timestamp := strftime_T timeinfo,
             written := written st @
               map (Pair (if type = CUSTOM then fd else GetStream st type))
                 ((if type = ERROR then [''[ERROR] '']
                   else if type = WARNING then [''[WARNING] ''] else []) @
                  [body] @
                  (if (if (stdoutToFile st \<noteq> 0 \<and> type = STANDARD) \<or>
                          (stderrToFile st \<noteq> 0 \<and> (type = WARNING \<or> type = ERROR))
                       then DISABLE else colorfulness st) \<noteq> 0
                   then [RESET] else []) @
                  (if autoNewline st \<noteq> 0 then [''\<newline>''] else []))\<rparr>)"
  unfolding Display_engine_returns [OF assms(2,3) refl assms(4,5,6) refl]
  using assms(1) by (simp add: DISABLE_def cong: if_cong split del: if_split)


text \<open>A warning on a terminal with the trace disabled.\<close>

lemma vsnprintf_hi: "vsnprintf (BUFFLEN - 1) ''hi'' [] = Some ''hi''"
  by (simp add: vsnprintf_def cstr_def NUL_def BUFFLEN_def)

theorem no_header_without_trace_witness:
  "Display_engine (terminal_state\<lparr>showTrace := DISABLE\<rparr>) noon ''main'' WARNING NULL
       (BOLD @ YELLOW) ''hi'' [] =
     Inr (terminal_state\<lparr>showTrace := DISABLE, timestamp := ''12:00:00'',
            written := [(stderr, ''[WARNING] ''), (stderr, ''hi''), (stderr, RESET),
                        (stderr, ''\<newline>'')]\<rparr>)"
proof -
  have h: "showTrace (terminal_state\<lparr>showTrace := DISABLE\<rparr>) = DISABLE"
    "isLocked (terminal_state\<lparr>showTrace := DISABLE\<rparr>) \<noteq> 0 \<or>
       \<not> consoleLock (terminal_state\<lparr>showTrace := DISABLE\<rparr>)"
    "colorfulness (terminal_state\<lparr>showTrace := DISABLE\<rparr>) = DISABLE \<or>
       colorfulness (terminal_state\<lparr>showTrace := DISABLE\<rparr>) = ENABLE"
    "(if WARNING = CUSTOM then NULL
      else GetStream (terminal_state\<lparr>showTrace := DISABLE\<rparr>) WARNING) \<noteq> NULL"
    by (simp_all add: sample_simps)
  show ?thesis
    unfolding no_header_without_trace [OF h vsnprintf_hi vsnprintf_hi]
    by (simp add: sample_simps)
qed

text \<open>A warning or an error writes its tag and then the body to the stream of its category.\<close>

lemma Display_engine_tagged:
  assumes t: "type = WARNING \<or> type = ERROR"
    and lock: "isLocked st \<noteq> 0 \<or> \<not> consoleLock st"
    and col: "colorfulness st = DISABLE \<or> colorfulness st = ENABLE"
    and n: "GetStream st type \<noteq> NULL"
    and body: "vsnprintf (BUFFLEN - 1) format args = Some tmpBuffer"
      "vsnprintf (BUFFLEN - 1) tmpBuffer [] = Some body"
  shows "\<exists>pre post. Display_engine st timeinfo function type fd color format args =
      Inr (st\<lparr>timestamp := strftime_T timeinfo,
             written := written st @ map (Pair (GetStream st type))
               (pre @ [if type = ERROR then ''[ERROR] '' else ''[WARNING] '', body] @ post)\<rparr>)"
proof -
  have c: "type \<noteq> CUSTOM"
    using t by (auto simp: WARNING_def ERROR_def CUSTOM_def)
  then have s: "(if type = CUSTOM then fd else GetStream st type) = GetStream st type"
    by simp
  have tag: "(if type = ERROR then [''[ERROR] '']
        else if type = WARNING then [''[WARNING] '']
        else if showTrace st \<noteq> 0 then ['' ''] else []) =
      [if type = ERROR then ''[ERROR] '' else ''[WARNING] '']"
    using t by auto
  have l: "h @ [tg] @ [body] @ r @ e = h @ [tg, body] @ (r @ e)" for h r e :: "string list" and tg
    by simp
  show ?thesis
    unfolding Display_engine_returns [OF lock col s [symmetric] n body refl] tag l
    by (intro exI) (rule refl)
qed

text \<open>
  C3. With verbosity disabled, Display and DisplayColor return at once with every global
  and the output unchanged; the engine is not entered, so the mutex is not locked (the
  call returns even where the mutex is held and a lock would not). DisplayWarning and
  DisplayError under the same condition still write: whenever the call is defined as in
  C4, the tag and the body go to the stream of the category.
\<close>

theorem verbosity_gates_standard_only:
  assumes "verbose st = DISABLE"
  shows "Display st timeinfo function format args = Inr st \<and>
    DisplayColor st timeinfo function color format args = Inr st \<and>
    ((isLocked st \<noteq> 0 \<or> \<not> consoleLock st) \<and>
     (colorfulness st = DISABLE \<or> colorfulness st = ENABLE) \<and>
     vsnprintf (BUFFLEN - 1) format args = Some tmpBuffer \<and>
     vsnprintf (BUFFLEN - 1) tmpBuffer [] = Some body \<longrightarrow>
     (GetStream st WARNING \<noteq> NULL \<longrightarrow>
        (\<exists>st' pre post. DisplayWarning st timeinfo function format args = Inr st' \<and>
           written st' = written st @
             map (Pair (GetStream st WARNING)) (pre @ [''[WARNING] '', body] @ post))) \<and>
     (GetStream st ERROR \<noteq> NULL \<longrightarrow>
        (\<exists>st' pre post. DisplayError st timeinfo function format args = Inr st' \<and>
           written st' = written st @
             map (Pair (GetStream st ERROR)) (pre @ [''[ERROR] '', body] @ post))))"
proof (intro conjI impI)
  show "Display st timeinfo function format args = Inr st"
    using assms by (simp add: Display_def DISABLE_def)
  show "DisplayColor st timeinfo function color format args = Inr st"
    using assms by (simp add: DisplayColor_def DISABLE_def)
next
  assume d: "(isLocked st \<noteq> 0 \<or> \<not> consoleLock st) \<and>
     (colorfulness st = DISABLE \<or> colorfulness st = ENABLE) \<and>
     vsnprintf (BUFFLEN - 1) format args = Some tmpBuffer \<and>
     vsnprintf (BUFFLEN - 1) tmpBuffer [] = Some body"
    and n: "GetStream st WARNING \<noteq> NULL"
  have "WARNING \<noteq> ERROR"
    by (simp add: WARNING_def ERROR_def)
  with d n Display_engine_tagged [of WARNING st format args tmpBuffer body]
  show "\<exists>st' pre post. DisplayWarning st timeinfo function format args = Inr st' \<and>
      written st' = written st @
        map (Pair (GetStream st WARNING)) (pre @ [''[WARNING] '', body] @ post)"
    unfolding DisplayWarning_def by (fastforce simp del: map_append)
next
  assume d: "(isLocked st \<noteq> 0 \<or> \<not> consoleLock st) \<and>
     (colorfulness st = DISABLE \<or> colorfulness st = ENABLE) \<and>
     vsnprintf (BUFFLEN - 1) format args = Some tmpBuffer \<and>
     vsnprintf (BUFFLEN - 1) tmpBuffer [] = Some body"
    and n: "GetStream st ERROR \<noteq> NULL"
  with Display_engine_tagged [of ERROR st format args tmpBuffer body]
  show "\<exists>st' pre post. DisplayError st timeinfo function format args = Inr st' \<and>
      written st' = written st @
        map (Pair (GetStream st ERROR)) (pre @ [''[ERROR] '', body] @ post)"
    unfolding DisplayError_def by (fastforce simp del: map_append)
qed


text \<open>Verbosity disabled: Display on a held mutex, a warning and an error on a terminal.\<close>

theorem verbosity_gates_standard_only_witness:
  "Display (terminal_state\<lparr>verbose := DISABLE, consoleLock := True\<rparr>) noon ''main'' ''hi'' [] =
     Inr (terminal_state\<lparr>verbose := DISABLE, consoleLock := True\<rparr>) \<and>
   (\<exists>st' pre post.
      DisplayWarning (terminal_state\<lparr>verbose := DISABLE\<rparr>) noon ''main'' ''hi'' [] = Inr st' \<and>
      written st' = map (Pair stderr) (pre @ [''[WARNING] '', ''hi''] @ post)) \<and>
   (\<exists>st' pre post.
      DisplayError (terminal_state\<lparr>verbose := DISABLE\<rparr>) noon ''main'' ''hi'' [] = Inr st' \<and>
      written st' = map (Pair stderr) (pre @ [''[ERROR] '', ''hi''] @ post))"
proof -
  have h: "verbose (terminal_state\<lparr>verbose := DISABLE, consoleLock := True\<rparr>) = DISABLE"
    "verbose (terminal_state\<lparr>verbose := DISABLE\<rparr>) = DISABLE"
    by simp_all
  have d: "(isLocked (terminal_state\<lparr>verbose := DISABLE\<rparr>) \<noteq> 0 \<or>
        \<not> consoleLock (terminal_state\<lparr>verbose := DISABLE\<rparr>)) \<and>
     (colorfulness (terminal_state\<lparr>verbose := DISABLE\<rparr>) = DISABLE \<or>
      colorfulness (terminal_state\<lparr>verbose := DISABLE\<rparr>) = ENABLE) \<and>
     vsnprintf (BUFFLEN - 1) ''hi'' [] = Some ''hi'' \<and>
     vsnprintf (BUFFLEN - 1) ''hi'' [] = Some ''hi''"
    using vsnprintf_hi by (simp add: sample_simps)
  have g: "GetStream (terminal_state\<lparr>verbose := DISABLE\<rparr>) WARNING = stderr"
    "GetStream (terminal_state\<lparr>verbose := DISABLE\<rparr>) ERROR = stderr"
    "written (terminal_state\<lparr>verbose := DISABLE\<rparr>) = []"
    by (simp_all add: sample_simps)
  from verbosity_gates_standard_only [OF h(1), of noon "''main''" "''hi''" "[]"]
    verbosity_gates_standard_only [OF h(2), of noon "''main''" "''hi''" "[]" _ "''hi''" "''hi''"]
    d
  show ?thesis
    unfolding g by simp
qed

text \<open>
  C8. For each of the categories STANDARD, WARNING and ERROR and every non-null stream,
  SetStream returns 0, GetStream then gives that stream, and a call of the print engine
  for that category returns having written only to that stream, the body included.
\<close>

theorem SetStream_redirects_emission:
  assumes t: "streamType = STANDARD \<or> streamType = WARNING \<or> streamType = ERROR"
    and n: "newStream \<noteq> NULL"
    and len: "length (streams st) = 3"
    and lock: "isLocked st \<noteq> 0 \<or> \<not> consoleLock st"
    and col: "colorfulness st = DISABLE \<or> colorfulness st = ENABLE"
    and body: "vsnprintf (BUFFLEN - 1) format args = Some tmpBuffer"
      "vsnprintf (BUFFLEN - 1) tmpBuffer [] = Some body"
  shows "\<exists>st1 st2 pre post.
      SetStream st streamType newStream = Inr (0, st1) \<and>
      GetStream st1 streamType = newStream \<and>
      Display_engine st1 timeinfo function streamType fd color format args = Inr st2 \<and>
      written st2 = written st @ map (Pair newStream) (pre @ [body] @ post)"
proof -
  define st1 where "st1 = st\<lparr>streams := (streams st)[nat streamType := newStream]\<rparr>"
  have r: "streamType \<ge> STANDARD \<and> streamType \<le> ERROR" "streamType \<noteq> CUSTOM"
    "nat streamType < 3"
    using t by (auto simp: STANDARD_def WARNING_def ERROR_def CUSTOM_def)
  have s: "SetStream st streamType newStream = Inr (0, st1)"
    using r(1) by (simp add: SetStream_def st1_def)
  have g: "GetStream st1 streamType = newStream"
    using r(1,3) len by (simp add: GetStream_def st1_def)
  have e: "newStream = (if streamType = CUSTOM then fd else GetStream st1 streamType)"
    using r(2) g by simp
  have f: "isLocked st1 \<noteq> 0 \<or> \<not> consoleLock st1"
    "colorfulness st1 = DISABLE \<or> colorfulness st1 = ENABLE"
    "written st1 = written st"
    using lock col by (simp_all add: st1_def)
  have l: "h @ tg @ [body] @ r @ e = (h @ tg) @ [body] @ (r @ e)"
    for h tg r e :: "string list"
    by simp
  have "\<exists>pre post. Display_engine st1 timeinfo function streamType fd color format args =
      Inr (st1\<lparr>timestamp := strftime_T timeinfo,
              written := written st1 @ map (Pair newStream) (pre @ [body] @ post)\<rparr>)"
    unfolding Display_engine_returns [OF f(1,2) e n body refl] l
    by (intro exI) (rule refl)
  then show ?thesis
    using s g by (fastforce simp: f(3) simp del: map_append)
qed

text \<open>Warnings sent to an opened file instead of stderr.\<close>

theorem SetStream_redirects_emission_witness:
  "\<exists>st1 st2 pre post.
      SetStream terminal_state WARNING (fopen 3) = Inr (0, st1) \<and>
      GetStream st1 WARNING = fopen 3 \<and>
      Display_engine st1 noon ''main'' WARNING NULL (BOLD @ YELLOW) ''hi'' [] = Inr st2 \<and>
      written st2 = map (Pair (fopen 3)) (pre @ [''hi''] @ post)"
proof -
  have h: "WARNING = STANDARD \<or> WARNING = WARNING \<or> WARNING = ERROR"
    "fopen 3 \<noteq> NULL"
    "length (streams terminal_state) = 3"
    "isLocked terminal_state \<noteq> 0 \<or> \<not> consoleLock terminal_state"
    "colorfulness terminal_state = DISABLE \<or> colorfulness terminal_state = ENABLE"
    by (simp_all add: sample_simps)
  have w: "written terminal_state = []"
    by (simp add: sample_simps)
  from SetStream_redirects_emission [OF h vsnprintf_hi vsnprintf_hi, of noon "''main''" NULL
      "BOLD @ YELLOW"]
  show ?thesis
    unfolding w by simp
qed

end
